theory Spec2Isabelle
  imports Complex_Main
begin

section \<open>Python values, exceptions and HTTP responses\<close>

text \<open>
  The request-dispatch core of the Paradigm Python SDK
  (\<^verbatim>\<open>sdks/python/src/paradigm_sdk/client.py\<close>): the sliding-window rate limiter,
  the response interpreter \<^verbatim>\<open>_handle_response\<close>, the retrying dispatcher
  \<^verbatim>\<open>_make_request\<close> and the typed facade built on it.

  A decoded JSON document is a Python value: \<^verbatim>\<open>None\<close>, a bool, an int, a float, a
  str, a list or a dict with string keys. A dict is an association list read with
  \<open>map_of\<close>. Floats and clock readings are real numbers: rounding is not modelled.
\<close>

datatype json_value =
    JNull
  | JBool bool
  | JInt int
  | JFloat real
  | JStr string
  | JList "json_value list"
  | JDict "(string \<times> json_value) list"

text \<open>The exceptions of \<^verbatim>\<open>httpx\<close> that a request can raise. The dispatcher catches
  \<^verbatim>\<open>ConnectError\<close> and \<^verbatim>\<open>TimeoutException\<close> only.\<close>

datatype http_exception = ConnectError | TimeoutException | OtherHTTPError

text \<open>The two messages with which the client raises \<^verbatim>\<open>NetworkError\<close>:
  \<^verbatim>\<open>f"Invalid JSON response: {response.text}"\<close> and
  \<^verbatim>\<open>f"Request failed after {self.config.retries} retries: {e}"\<close>, kept structured.\<close>

datatype network_error_message =
    InvalidJSONResponse string
  | RequestFailedAfterRetries int http_exception

text \<open>
  Every exception the modelled code can raise. \<^verbatim>\<open>ParadigmError\<close> is raised as
  \<^verbatim>\<open>ParadigmError(error_msg, error_code)\<close> or as \<^verbatim>\<open>ParadigmError(error_msg)\<close>; its class
  is declared in \<^verbatim>\<open>exceptions.py\<close>, so the value records the arguments of the call: the
  message and the code argument, \<open>None\<close> where the call passes no code.
  \<^verbatim>\<open>AttributeError\<close>, \<^verbatim>\<open>IndexError\<close>, \<^verbatim>\<open>TypeError\<close> and \<^verbatim>\<open>UnicodeDecodeError\<close> are the
  interpreter's own; \<^verbatim>\<open>InvalidURL\<close> is the one \<^verbatim>\<open>httpx\<close> raises on a malformed URL.
\<close>

datatype error =
    NetworkError network_error_message
  | RateLimitError string
  | ParadigmError json_value "json_value option"
  | ValidationError string
  | AttributeError
  | IndexError
  | TypeError
  | UnicodeDecodeError
  | InvalidURL
  | HTTPException http_exception

text \<open>
  The outcome of \<^verbatim>\<open>response.json()\<close>: the decoded document; or the decoder raises
  \<^verbatim>\<open>json.JSONDecodeError\<close>, as it does on an empty body and on text that is not JSON; or
  it raises \<^verbatim>\<open>UnicodeDecodeError\<close>, as it does on bytes that are no Unicode text, such as
  the single byte 0xFF. The decoder belongs to the standard library and is not
  modelled: its outcome is part of the response.
\<close>

datatype json_outcome = Decoded json_value | RaisesJSONDecodeError | RaisesUnicodeDecodeError

text \<open>
  A completed HTTP exchange as \<^verbatim>\<open>_handle_response\<close> reads it: \<^verbatim>\<open>response.status_code\<close>,
  \<^verbatim>\<open>response.text\<close> and the outcome of \<^verbatim>\<open>response.json()\<close>.
\<close>

record response =
  status_code :: int
  response_text :: string
  json :: json_outcome

section \<open>The response interpreter\<close>

text \<open>Sequencing of a computation that may raise.\<close>

definition and_then :: "error + 'a \<Rightarrow> ('a \<Rightarrow> error + 'b) \<Rightarrow> error + 'b" where
  "and_then r f = (case r of Inl e \<Rightarrow> Inl e | Inr x \<Rightarrow> f x)"

text \<open>\<^verbatim>\<open>d.get(key, default)\<close>: only a dict has the method; any other value raises
  \<^verbatim>\<open>AttributeError\<close>.\<close>

definition dict_get :: "json_value \<Rightarrow> string \<Rightarrow> json_value \<Rightarrow> error + json_value" where
  "dict_get d key dflt =
     (case d of
        JDict kvs \<Rightarrow> (case map_of kvs key of Some v \<Rightarrow> Inr v | None \<Rightarrow> Inr dflt)
      | _ \<Rightarrow> Inl AttributeError)"

text \<open>Python's truth value of a decoded document, as \<^verbatim>\<open>not data.get("success", False)\<close>
  tests it.\<close>

fun truthy :: "json_value \<Rightarrow> bool" where
  "truthy JNull = False"
| "truthy (JBool b) = b"
| "truthy (JInt i) = (i \<noteq> 0)"
| "truthy (JFloat x) = (x \<noteq> 0)"
| "truthy (JStr s) = (s \<noteq> [])"
| "truthy (JList xs) = (xs \<noteq> [])"
| "truthy (JDict kvs) = (kvs \<noteq> [])"

text \<open>
  \<^verbatim>\<open>ParadigmClient._handle_response\<close>: the body is decoded first, and of the decoder's
  exceptions only \<^verbatim>\<open>json.JSONDecodeError\<close> is caught and turned into \<^verbatim>\<open>NetworkError\<close>;
  any other propagates. Then status 429, then any status from 400 up, then the
  envelope's \<^verbatim>\<open>success\<close> flag; otherwise the payload.
\<close>

definition handle_response :: "response \<Rightarrow> error + json_value" where
  "handle_response response =
     (case json response of
        RaisesJSONDecodeError \<Rightarrow>
          Inl (NetworkError (InvalidJSONResponse (response_text response)))
      | RaisesUnicodeDecodeError \<Rightarrow> Inl UnicodeDecodeError
      | Decoded data \<Rightarrow>
          if status_code response = 429 then Inl (RateLimitError ''Rate limit exceeded'')
          else if status_code response \<ge> 400 then
            and_then (dict_get data ''error'' (JDict [])) (\<lambda>err.
            and_then (dict_get err ''message'' (JStr ''Unknown error'')) (\<lambda>error_msg.
            and_then (dict_get data ''error'' (JDict [])) (\<lambda>err'.
            and_then (dict_get err' ''code'' (JStr ''UNKNOWN'')) (\<lambda>error_code.
              Inl (ParadigmError error_msg (Some error_code))))))
          else
            and_then (dict_get data ''success'' (JBool False)) (\<lambda>success.
              if \<not> truthy success then
                and_then (dict_get data ''error'' (JDict [])) (\<lambda>err.
                and_then (dict_get err ''message'' (JStr ''Request failed'')) (\<lambda>error_msg.
                  Inl (ParadigmError error_msg None)))
              else dict_get data ''data'' (JDict [])))"

section \<open>The world outside the client\<close>

text \<open>
  One HTTP exchange as the dispatcher issues it:
  \<^verbatim>\<open>self._client.request(method=..., url=..., params=..., json=...)\<close>.
\<close>

record http_request =
  http_method :: string
  url :: string
  params :: "json_value option"
  json_data :: "json_value option"

text \<open>
  What the code does to the world, in order: a \<^verbatim>\<open>time.sleep\<close> or awaited
  \<^verbatim>\<open>asyncio.sleep\<close> of so many seconds, and an HTTP request handed to the transport.
  \<open>Acquire\<close> is a ghost event that marks one run of the rate limiter's admission
  routine; it is how the runs are counted. Log messages are left out.
\<close>

datatype event = Acquire | Sleep real | Request http_request

text \<open>The clock that \<^verbatim>\<open>time.time()\<close> reads, in seconds, and the events so far. A sleep
  advances the clock by its duration; an HTTP exchange takes no time.\<close>

record world =
  clock :: real
  trace :: "event list"

definition sleep :: "real \<Rightarrow> world \<Rightarrow> world" where
  "sleep secs w = w\<lparr>clock := clock w + secs, trace := trace w @ [Sleep secs]\<rparr>"

text \<open>
  The transport is outside the program: for the attempt with index \<open>k\<close> of a call it
  either returns a response or raises. It stands for \<^verbatim>\<open>self._client.request\<close> on the
  blocking path and for \<^verbatim>\<open>self._async_client.request\<close> on the suspending one.
\<close>

datatype transport_result = Returns response | Raises http_exception

type_synonym transport = "nat \<Rightarrow> transport_result"

definition acquisitions :: "event list \<Rightarrow> nat" where
  "acquisitions evs = length (filter (\<lambda>ev. ev = Acquire) evs)"

fun is_request :: "event \<Rightarrow> bool" where
  "is_request (Request rq) = True"
| "is_request ev = False"

definition attempts_made :: "event list \<Rightarrow> nat" where
  "attempts_made evs = length (filter is_request evs)"

fun sleeps_of :: "event list \<Rightarrow> real list" where
  "sleeps_of [] = []"
| "sleeps_of (Sleep secs # evs) = secs # sleeps_of evs"
| "sleeps_of (ev # evs) = sleeps_of evs"

section \<open>The rate limiter\<close>

text \<open>\<^verbatim>\<open>class RateLimiter\<close>: the quota, the window in seconds and the recorded
  timestamps.\<close>

record RateLimiter =
  requests :: int
  window :: int
  calls :: "real list"


text \<open>
  \<^verbatim>\<open>RateLimiter.wait_if_needed\<close>. The clock is read once, on entry. The pruned list is
  stored before the quota test; \<^verbatim>\<open>self.calls[0]\<close> raises \<^verbatim>\<open>IndexError\<close> on an empty
  list. After the sleep the timestamp appended is the one read on entry.
\<close>

definition wait_if_needed :: "RateLimiter \<Rightarrow> world \<Rightarrow> (error + unit) \<times> RateLimiter \<times> world" where
  "wait_if_needed self w =
     (let now = clock w;
          w0 = w\<lparr>trace := trace w @ [Acquire]\<rparr>;
          kept = filter (\<lambda>call_time. now - call_time < of_int (window self)) (calls self);
          self1 = self\<lparr>calls := kept\<rparr>
      in if int (length kept) \<ge> requests self then
           (case kept of
              [] \<Rightarrow> (Inl IndexError, self1, w0)
            | oldest # later \<Rightarrow>
                (let sleep_time = of_int (window self) - (now - oldest);
                     w1 = (if sleep_time > 0 then sleep sleep_time w0 else w0)
                 in (Inr (), self1\<lparr>calls := kept @ [now]\<rparr>, w1)))
         else (Inr (), self1\<lparr>calls := kept @ [now]\<rparr>, w0))"

text \<open>\<^verbatim>\<open>RateLimiter.async_wait_if_needed\<close>: the same statements, the sleep awaited.\<close>

definition async_wait_if_needed :: "RateLimiter \<Rightarrow> world \<Rightarrow> (error + unit) \<times> RateLimiter \<times> world" where
  "async_wait_if_needed self w =
     (let now = clock w;
          w0 = w\<lparr>trace := trace w @ [Acquire]\<rparr>;
          kept = filter (\<lambda>call_time. now - call_time < of_int (window self)) (calls self);
          self1 = self\<lparr>calls := kept\<rparr>
      in if int (length kept) \<ge> requests self then
           (case kept of
              [] \<Rightarrow> (Inl IndexError, self1, w0)
            | oldest # later \<Rightarrow>
                (let sleep_time = of_int (window self) - (now - oldest);
                     w1 = (if sleep_time > 0 then sleep sleep_time w0 else w0)
                 in (Inr (), self1\<lparr>calls := kept @ [now]\<rparr>, w1)))
         else (Inr (), self1\<lparr>calls := kept @ [now]\<rparr>, w0))"

text \<open>
  A caller that uses one limiter sequentially: before each call it idles for the given
  gap, then runs \<^verbatim>\<open>wait_if_needed\<close>; the request goes out at the instant the call
  returns. The result lists these instants, up to the first call that raises.
\<close>

fun admission_instants :: "RateLimiter \<Rightarrow> world \<Rightarrow> real list \<Rightarrow> real list \<times> RateLimiter \<times> world" where
  "admission_instants self w [] = ([], self, w)"
| "admission_instants self w (gap # gaps) =
     (case wait_if_needed self (w\<lparr>clock := clock w + gap\<rparr>) of
        (Inl e, self1, w1) \<Rightarrow> ([], self1, w1)
      | (Inr u, self1, w1) \<Rightarrow>
          (case admission_instants self1 w1 gaps of
             (ts, self2, w2) \<Rightarrow> (clock w1 # ts, self2, w2)))"

text \<open>How many of the instants \<open>ts\<close> lie in the interval of \<open>len\<close> seconds that starts
  at \<open>t0\<close> (closed on the left, open on the right).\<close>

definition admitted_in :: "real list \<Rightarrow> real \<Rightarrow> real \<Rightarrow> nat" where
  "admitted_in ts t0 len = length (filter (\<lambda>t. t0 \<le> t \<and> t < t0 + len) ts)"

section \<open>Client configuration and construction\<close>

text \<open>\<^verbatim>\<open>@dataclass class ClientConfig\<close>.\<close>

record ClientConfig =
  base_url :: string
  api_key :: "string option"
  timeout :: real
  retries :: int
  network :: string
  rate_limit_requests :: int
  rate_limit_window :: int







text \<open>The client's own state: its configuration and its rate limiter. The two
  \<^verbatim>\<open>httpx\<close> clients that \<^verbatim>\<open>_setup_http_client\<close> builds are the transport.\<close>

record ParadigmClient =
  config :: ClientConfig
  rate_limiter :: RateLimiter



section \<open>The request dispatcher\<close>

text \<open>
  The loop of \<^verbatim>\<open>_make_request\<close>, over the attempt indices still to run. Each attempt
  issues the request. A response goes to \<^verbatim>\<open>_handle_response\<close>, whose result or
  exception ends the call. A \<^verbatim>\<open>ConnectError\<close> or \<^verbatim>\<open>TimeoutException\<close> ends it with
  \<^verbatim>\<open>NetworkError\<close> when the index equals \<^verbatim>\<open>self.config.retries\<close>, and otherwise sleeps
  \<^verbatim>\<open>2 ** attempt\<close> seconds and goes on. Any other exception propagates. A loop that
  runs out of indices falls off the end of the function, which returns \<^verbatim>\<open>None\<close>.
\<close>

fun attempt_loop :: "ClientConfig \<Rightarrow> transport \<Rightarrow> http_request \<Rightarrow> nat list \<Rightarrow> world
    \<Rightarrow> (error + json_value) \<times> world" where
  "attempt_loop cfg transport rq [] w = (Inr JNull, w)"
| "attempt_loop cfg transport rq (attempt # later) w =
     (let w1 = w\<lparr>trace := trace w @ [Request rq]\<rparr>
      in case transport attempt of
           Returns response \<Rightarrow> (handle_response response, w1)
         | Raises e \<Rightarrow>
             if e = ConnectError \<or> e = TimeoutException then
               if int attempt = retries cfg then
                 (Inl (NetworkError (RequestFailedAfterRetries (retries cfg) e)), w1)
               else attempt_loop cfg transport rq later (sleep (2 ^ attempt) w1)
             else (Inl (HTTPException e), w1))"

text \<open>\<^verbatim>\<open>range(self.config.retries + 1)\<close>: empty when the bound is not positive.\<close>

definition attempt_range :: "ClientConfig \<Rightarrow> nat list" where
  "attempt_range cfg = [0 ..< nat (retries cfg + 1)]"

text \<open>\<^verbatim>\<open>ParadigmClient._make_request\<close>: one run of the rate limiter, then the loop.\<close>

definition make_request :: "transport \<Rightarrow> string \<Rightarrow> string \<Rightarrow> json_value option \<Rightarrow> json_value option
    \<Rightarrow> ParadigmClient \<Rightarrow> world \<Rightarrow> (error + json_value) \<times> ParadigmClient \<times> world" where
  "make_request transport meth endpoint ps body self w =
     (case wait_if_needed (rate_limiter self) w of
        (Inl e, rl, w0) \<Rightarrow> (Inl e, self\<lparr>rate_limiter := rl\<rparr>, w0)
      | (Inr u, rl, w0) \<Rightarrow>
          (case attempt_loop (config self) transport
                  \<lparr>http_method = meth, url = endpoint, params = ps, json_data = body\<rparr>
                  (attempt_range (config self)) w0 of
             (result, w1) \<Rightarrow> (result, self\<lparr>rate_limiter := rl\<rparr>, w1)))"

text \<open>The loop of \<^verbatim>\<open>_make_async_request\<close>: the same statements, the request and the
  sleep awaited.\<close>

fun async_attempt_loop :: "ClientConfig \<Rightarrow> transport \<Rightarrow> http_request \<Rightarrow> nat list \<Rightarrow> world
    \<Rightarrow> (error + json_value) \<times> world" where
  "async_attempt_loop cfg transport rq [] w = (Inr JNull, w)"
| "async_attempt_loop cfg transport rq (attempt # later) w =
     (let w1 = w\<lparr>trace := trace w @ [Request rq]\<rparr>
      in case transport attempt of
           Returns response \<Rightarrow> (handle_response response, w1)
         | Raises e \<Rightarrow>
             if e = ConnectError \<or> e = TimeoutException then
               if int attempt = retries cfg then
                 (Inl (NetworkError (RequestFailedAfterRetries (retries cfg) e)), w1)
               else async_attempt_loop cfg transport rq later (sleep (2 ^ attempt) w1)
             else (Inl (HTTPException e), w1))"

text \<open>\<^verbatim>\<open>ParadigmClient._make_async_request\<close>.\<close>

definition make_async_request :: "transport \<Rightarrow> string \<Rightarrow> string \<Rightarrow> json_value option \<Rightarrow> json_value option
    \<Rightarrow> ParadigmClient \<Rightarrow> world \<Rightarrow> (error + json_value) \<times> ParadigmClient \<times> world" where
  "make_async_request transport meth endpoint ps body self w =
     (case async_wait_if_needed (rate_limiter self) w of
        (Inl e, rl, w0) \<Rightarrow> (Inl e, self\<lparr>rate_limiter := rl\<rparr>, w0)
      | (Inr u, rl, w0) \<Rightarrow>
          (case async_attempt_loop (config self) transport
                  \<lparr>http_method = meth, url = endpoint, params = ps, json_data = body\<rparr>
                  (attempt_range (config self)) w0 of
             (result, w1) \<Rightarrow> (result, self\<lparr>rate_limiter := rl\<rparr>, w1)))"

text \<open>
  The events of a call whose every attempt is retried, as the specification describes
  them: a request, then for each retry a wait of \<open>2 ^ i\<close> seconds and the next request,
  with \<open>i\<close> the index of the attempt that failed. \<open>backoff_schedule rq i n\<close> starts at
  index \<open>i\<close> and makes \<open>n\<close> retries.
\<close>

fun backoff_schedule :: "http_request \<Rightarrow> nat \<Rightarrow> nat \<Rightarrow> event list" where
  "backoff_schedule rq i 0 = [Request rq]"
| "backoff_schedule rq i (Suc n) = Request rq # Sleep (2 ^ i) # backoff_schedule rq (Suc i) n"

section \<open>The typed facade\<close>

text \<open>
  The modules \<^verbatim>\<open>utils.py\<close> and \<^verbatim>\<open>types.py\<close> of the package are parameters: the
  validators, the address formatter, and the constructors \<^verbatim>\<open>Account(**data)\<close>,
  \<^verbatim>\<open>Transaction(**data)\<close> and \<^verbatim>\<open>NetworkStats(**data)\<close>, each of which may raise. A typed
  record is the value its constructor returns.
\<close>

record package =
  validate_address :: "string \<Rightarrow> bool"
  validate_amount :: "json_value \<Rightarrow> bool"
  format_address :: "string \<Rightarrow> string"
  Account :: "json_value \<Rightarrow> error + json_value"
  Transaction :: "json_value \<Rightarrow> error + json_value"
  NetworkStats :: "json_value \<Rightarrow> error + json_value"

text \<open>\<^verbatim>\<open>CreateTransactionRequest\<close>: the two attributes the client reads, and the other
  entries of the instance's \<^verbatim>\<open>__dict__\<close>.\<close>

record CreateTransactionRequest =
  to :: string
  amount :: json_value
  other_fields :: "(string \<times> json_value) list"

definition request_dict :: "CreateTransactionRequest \<Rightarrow> json_value" where
  "request_dict request =
     JDict ((''to'', JStr (to request)) # (''amount'', amount request) # other_fields request)"

text \<open>Hands the client and the world through and applies a typed constructor to a
  returned payload.\<close>

definition returning :: "(json_value \<Rightarrow> error + json_value)
    \<Rightarrow> (error + json_value) \<times> ParadigmClient \<times> world \<Rightarrow> (error + json_value) \<times> ParadigmClient \<times> world" where
  "returning make_record outcome =
     (case outcome of (result, self1, w1) \<Rightarrow> (and_then result make_record, self1, w1))"

definition get_health :: "transport \<Rightarrow> ParadigmClient \<Rightarrow> world
    \<Rightarrow> (error + json_value) \<times> ParadigmClient \<times> world" where
  "get_health transport self w = make_request transport ''GET'' ''/health'' None None self w"

definition get_health_async :: "transport \<Rightarrow> ParadigmClient \<Rightarrow> world
    \<Rightarrow> (error + json_value) \<times> ParadigmClient \<times> world" where
  "get_health_async transport self w =
     make_async_request transport ''GET'' ''/health'' None None self w"

definition get_network_stats :: "package \<Rightarrow> transport \<Rightarrow> ParadigmClient \<Rightarrow> world
    \<Rightarrow> (error + json_value) \<times> ParadigmClient \<times> world" where
  "get_network_stats pkg transport self w =
     returning (NetworkStats pkg)
       (make_request transport ''GET'' ''/analytics/network-stats'' None None self w)"

definition get_network_stats_async :: "package \<Rightarrow> transport \<Rightarrow> ParadigmClient \<Rightarrow> world
    \<Rightarrow> (error + json_value) \<times> ParadigmClient \<times> world" where
  "get_network_stats_async pkg transport self w =
     returning (NetworkStats pkg)
       (make_async_request transport ''GET'' ''/analytics/network-stats'' None None self w)"

definition get_account :: "package \<Rightarrow> transport \<Rightarrow> string \<Rightarrow> ParadigmClient \<Rightarrow> world
    \<Rightarrow> (error + json_value) \<times> ParadigmClient \<times> world" where
  "get_account pkg transport address self w =
     (if \<not> validate_address pkg address
      then (Inl (ValidationError ''Invalid address format''), self, w)
      else returning (Account pkg)
             (make_request transport ''GET'' (''/accounts/'' @ address) None None self w))"

definition get_account_async :: "package \<Rightarrow> transport \<Rightarrow> string \<Rightarrow> ParadigmClient \<Rightarrow> world
    \<Rightarrow> (error + json_value) \<times> ParadigmClient \<times> world" where
  "get_account_async pkg transport address self w =
     (if \<not> validate_address pkg address
      then (Inl (ValidationError ''Invalid address format''), self, w)
      else returning (Account pkg)
             (make_async_request transport ''GET'' (''/accounts/'' @ address) None None self w))"

definition get_balance :: "package \<Rightarrow> transport \<Rightarrow> string \<Rightarrow> ParadigmClient \<Rightarrow> world
    \<Rightarrow> (error + json_value) \<times> ParadigmClient \<times> world" where
  "get_balance pkg transport address self w =
     (if \<not> validate_address pkg address
      then (Inl (ValidationError ''Invalid address format''), self, w)
      else make_request transport ''GET'' (''/accounts/'' @ address @ ''/balance'') None None self w)"

definition get_balance_async :: "package \<Rightarrow> transport \<Rightarrow> string \<Rightarrow> ParadigmClient \<Rightarrow> world
    \<Rightarrow> (error + json_value) \<times> ParadigmClient \<times> world" where
  "get_balance_async pkg transport address self w =
     (if \<not> validate_address pkg address
      then (Inl (ValidationError ''Invalid address format''), self, w)
      else make_async_request transport ''GET'' (''/accounts/'' @ address @ ''/balance'') None None
             self w)"

definition get_transaction :: "package \<Rightarrow> transport \<Rightarrow> string \<Rightarrow> ParadigmClient \<Rightarrow> world
    \<Rightarrow> (error + json_value) \<times> ParadigmClient \<times> world" where
  "get_transaction pkg transport hash self w =
     returning (Transaction pkg)
       (make_request transport ''GET'' (''/transactions/'' @ hash) None None self w)"

definition get_transaction_async :: "package \<Rightarrow> transport \<Rightarrow> string \<Rightarrow> ParadigmClient \<Rightarrow> world
    \<Rightarrow> (error + json_value) \<times> ParadigmClient \<times> world" where
  "get_transaction_async pkg transport hash self w =
     returning (Transaction pkg)
       (make_async_request transport ''GET'' (''/transactions/'' @ hash) None None self w)"

definition create_transaction :: "package \<Rightarrow> transport \<Rightarrow> CreateTransactionRequest
    \<Rightarrow> ParadigmClient \<Rightarrow> world \<Rightarrow> (error + json_value) \<times> ParadigmClient \<times> world" where
  "create_transaction pkg transport request self w =
     (if \<not> validate_address pkg (format_address pkg (to request))
      then (Inl (ValidationError ''Invalid recipient address''), self, w)
      else if \<not> validate_amount pkg (amount request)
      then (Inl (ValidationError ''Invalid amount''), self, w)
      else returning (Transaction pkg)
             (make_request transport ''POST'' ''/transactions'' None (Some (request_dict request))
                self w))"

definition create_transaction_async :: "package \<Rightarrow> transport \<Rightarrow> CreateTransactionRequest
    \<Rightarrow> ParadigmClient \<Rightarrow> world \<Rightarrow> (error + json_value) \<times> ParadigmClient \<times> world" where
  "create_transaction_async pkg transport request self w =
     (if \<not> validate_address pkg (format_address pkg (to request))
      then (Inl (ValidationError ''Invalid recipient address''), self, w)
      else if \<not> validate_amount pkg (amount request)
      then (Inl (ValidationError ''Invalid amount''), self, w)
      else returning (Transaction pkg)
             (make_async_request transport ''POST'' ''/transactions'' None
                (Some (request_dict request)) self w))"

text \<open>
  The facade operations that \<^verbatim>\<open>class ParadigmClient\<close> defines, in source order, each
  with whether it is declared \<^verbatim>\<open>async def\<close>. The utility methods (\<^verbatim>\<open>set_api_key\<close>,
  \<^verbatim>\<open>close\<close>, \<^verbatim>\<open>aclose\<close> and the context-manager hooks) dispatch nothing and are not
  listed.
\<close>

definition facade_methods :: "(string \<times> bool) list" where
  "facade_methods =
     [(''get_health'', False), (''get_health_async'', True),
      (''get_network_stats'', False), (''get_network_stats_async'', True),
      (''get_account'', False), (''get_account_async'', True),
      (''get_balance'', False), (''get_balance_async'', True),
      (''get_transaction'', False), (''get_transaction_async'', True),
      (''create_transaction'', False), (''create_transaction_async'', True),
      (''send_signed_transaction'', False),
      (''estimate_fee'', False),
      (''get_transactions'', False),
      (''get_latest_block'', False),
      (''get_block'', False),
      (''create_ml_task'', False),
      (''get_ml_task'', False),
      (''get_ml_tasks'', False),
      (''create_proposal'', False),
      (''get_proposal'', False),
      (''vote'', False)]"

definition synchronous_operations :: "string list" where
  "synchronous_operations = map fst (filter (\<lambda>m. \<not> snd m) facade_methods)"

text \<open>The twin of an operation is the \<^verbatim>\<open>async def\<close> of the same name with the suffix
  \<^verbatim>\<open>_async\<close>.\<close>

definition has_async_twin :: "string \<Rightarrow> bool" where
  "has_async_twin name = ((name @ ''_async'', True) \<in> set facade_methods)"

section \<open>Test doubles\<close>


definition ok_response :: response where
  "ok_response = \<lparr>status_code = 200, response_text = [],
     json = Decoded (JDict [(''success'', JBool True), (''data'', JDict [])])\<rparr>"

definition failure_envelope :: response where
  "failure_envelope = \<lparr>status_code = 200, response_text = [],
     json = Decoded (JDict [(''success'', JBool False),
              (''error'', JDict [(''message'', JStr ''x''), (''code'', JStr ''Y'')])])\<rparr>"

definition answers_with :: "response \<Rightarrow> transport" where
  "answers_with r k = Returns r"

definition unreachable :: transport where
  "unreachable k = Raises ConnectError"

fun fails_once :: transport where
  "fails_once 0 = Raises ConnectError"
| "fails_once (Suc k) = Returns ok_response"

definition default_config :: ClientConfig where
  "default_config = \<lparr>base_url = ''http://localhost:8080'', api_key = None, timeout = 30,
     retries = 3, network = ''mainnet'', rate_limit_requests = 100, rate_limit_window = 60\<rparr>"

definition client_of :: "ClientConfig \<Rightarrow> ParadigmClient" where
  "client_of cfg = \<lparr>config = cfg,
     rate_limiter = \<lparr>requests = rate_limit_requests cfg, window = rate_limit_window cfg,
                     calls = []\<rparr>\<rparr>"

definition start :: world where
  "start = \<lparr>clock = 0, trace = []\<rparr>"


definition sample_package :: package where
  "sample_package = \<lparr>validate_address = (\<lambda>a. a \<noteq> []), validate_amount = (\<lambda>v. True),
     format_address = (\<lambda>a. a), Account = Inr, Transaction = Inr, NetworkStats = Inr\<rparr>"

section \<open>Properties of the response interpreter\<close>

text \<open>
  Claim C7. A response with a status below 400 whose body decodes to an envelope with
  \<^verbatim>\<open>success\<close> true and a \<^verbatim>\<open>data\<close> field yields that field's value, unchanged.
\<close>

theorem handle_response_returns_data:
  assumes "status_code r < 400"
    and "json r = Decoded (JDict env)"
    and "map_of env ''success'' = Some (JBool True)"
    and "map_of env ''data'' = Some d"
  shows "handle_response r = Inr d"
  using assms by (simp add: handle_response_def and_then_def dict_get_def)

theorem handle_response_returns_data_witness:
  "handle_response \<lparr>status_code = 200, response_text = [],
       json = Decoded (JDict [(''success'', JBool True),
                           (''data'', JDict [(''balance'', JStr ''42'')])])\<rparr>
     = Inr (JDict [(''balance'', JStr ''42'')])"
  by (rule handle_response_returns_data [where env = "[(''success'', JBool True),
                           (''data'', JDict [(''balance'', JStr ''42'')])]"]) simp_all

text \<open>
  Claim C10. A response with a status below 400 whose body decodes to an envelope with
  \<^verbatim>\<open>success\<close> true and no \<^verbatim>\<open>data\<close> field yields the empty dict; nothing is raised.
\<close>

theorem handle_response_no_data:
  assumes "status_code r < 400"
    and "json r = Decoded (JDict env)"
    and "map_of env ''success'' = Some (JBool True)"
    and "map_of env ''data'' = None"
  shows "handle_response r = Inr (JDict [])"
  using assms by (simp add: handle_response_def and_then_def dict_get_def)

theorem handle_response_no_data_witness:
  "handle_response \<lparr>status_code = 200, response_text = [],
       json = Decoded (JDict [(''success'', JBool True)])\<rparr> = Inr (JDict [])"
  by (rule handle_response_no_data [where env = "[(''success'', JBool True)]"]) simp_all




text \<open>
  The sibling path: with a status from 400 up (other than 429) the same envelope raises
  \<^verbatim>\<open>ParadigmError\<close> with the envelope's message and its code.
\<close>

lemma handle_response_error_status_keeps_code:
  "handle_response (failure_envelope\<lparr>status_code := 400\<rparr>)
     = Inl (ParadigmError (JStr ''x'') (Some (JStr ''Y'')))"
  by (simp add: failure_envelope_def handle_response_def and_then_def dict_get_def)

section \<open>Properties of the rate limiter\<close>

text \<open>With a positive quota the admission routine returns; it never raises.\<close>

lemma wait_if_needed_admits:
  assumes "0 < requests self"
  shows "\<exists>rl w0. wait_if_needed self w = (Inr (), rl, w0)"
  using assms by (auto simp: wait_if_needed_def Let_def split: list.splits)

text \<open>With a quota of zero or less the first call raises \<^verbatim>\<open>IndexError\<close>.\<close>

lemma wait_if_needed_empty_quota:
  assumes "requests self \<le> 0" and "calls self = []"
  shows "wait_if_needed self w = (Inl IndexError, self, w\<lparr>trace := trace w @ [Acquire]\<rparr>)"
  using assms by (simp add: wait_if_needed_def Let_def)

text \<open>
  When the pruned window holds at least the quota, the routine sleeps once, for
  \<^verbatim>\<open>window - (now - oldest)\<close> seconds, which is positive, and then records the timestamp
  it read on entry.
\<close>

lemma wait_if_needed_full_window:
  assumes "filter (\<lambda>call_time. clock w - call_time < of_int (window self)) (calls self)
      = oldest # later"
    and "requests self \<le> 1 + int (length later)"
  shows "wait_if_needed self w =
     (Inr (), self\<lparr>calls := oldest # later @ [clock w]\<rparr>,
      sleep (of_int (window self) - (clock w - oldest)) (w\<lparr>trace := trace w @ [Acquire]\<rparr>))"
proof -
  have "oldest \<in> set (filter (\<lambda>call_time. clock w - call_time < of_int (window self))
      (calls self))"
    using assms(1) by simp
  then have "clock w - oldest < of_int (window self)" by simp
  then show ?thesis using assms by (simp add: wait_if_needed_def Let_def)
qed

text \<open>
  Claim C1, at a failing run. With a quota of 1 request per 10 seconds, calls made at
  the instants 0, 5 and 10 return at 0, 10 and 15: the second sleeps 5 seconds and
  records 5, the third finds 5 still inside the window, sleeps 5 seconds and records 10.
  Two requests go out within the 10 seconds that start at 10, and the limiter holds two
  timestamps less than 10 seconds apart.
\<close>

theorem admissions_exceed_quota:
  "admission_instants \<lparr>requests = 1, window = 10, calls = []\<rparr> start [0, 5, 0] =
     ([0, 10, 15], \<lparr>requests = 1, window = 10, calls = [5, 10]\<rparr>,
      \<lparr>clock = 15, trace = [Acquire, Acquire, Sleep 5, Acquire, Sleep 5]\<rparr>)
   \<and> admitted_in [0, 10, 15] 10 10 = 2"
  by (simp add: wait_if_needed_def start_def sleep_def Let_def admitted_in_def)

section \<open>Properties of the dispatcher\<close>

lemma attempts_made_backoff_schedule: "attempts_made (backoff_schedule rq i n) = Suc n"
  by (induction n arbitrary: i) (simp_all add: attempts_made_def)

lemma sleeps_of_backoff_schedule:
  "sleeps_of (backoff_schedule rq i n) = map (\<lambda>j. 2 ^ j) [i ..< i + n]"
proof (induction n arbitrary: i)
  case 0
  show ?case by simp
next
  case (Suc n)
  have "[i ..< i + Suc n] = i # [Suc i ..< Suc i + n]"
    by (simp add: upt_conv_Cons)
  with Suc show ?case by simp
qed

text \<open>The loop from index \<open>k\<close> on, when every attempt is refused and \<open>R\<close> retries are
  configured: by induction on the number of indices left.\<close>

lemma attempt_loop_all_fail:
  assumes fails: "\<forall>i. transport i = Raises ConnectError \<or> transport i = Raises TimeoutException"
    and R: "retries cfg = int R"
  shows "k \<le> R \<Longrightarrow> \<exists>e. attempt_loop cfg transport rq [k ..< Suc R] w =
     (Inl (NetworkError (RequestFailedAfterRetries (int R) e)),
      w\<lparr>clock := clock w + (\<Sum>i = k ..< R. 2 ^ i),
        trace := trace w @ backoff_schedule rq k (R - k)\<rparr>)"
proof (induction "R - k" arbitrary: k w)
  case 0
  then have "k = R" by simp
  moreover have "[R ..< Suc R] = [R]" by simp
  ultimately show ?case
    using fails [rule_format, of R] R by (auto simp: Let_def)
next
  case (Suc d)
  then have lt: "k < R" and d: "d = R - Suc k" and le: "Suc k \<le> R" by simp_all
  have split: "[k ..< Suc R] = k # [Suc k ..< Suc R]"
    using lt by (simp add: upt_conv_Cons)
  have sched: "backoff_schedule rq k (R - k) =
      Request rq # Sleep (2 ^ k) # backoff_schedule rq (Suc k) (R - Suc k)"
  proof -
    have "R - k = Suc (R - Suc k)" using lt by arith
    then show ?thesis by simp
  qed
  have sum: "(\<Sum>i = k ..< R. (2::real) ^ i) = 2 ^ k + (\<Sum>i = Suc k ..< R. 2 ^ i)"
    using lt by (simp add: sum.atLeast_Suc_lessThan)
  from Suc.hyps(1) [OF d le, of "sleep (2 ^ k) (w\<lparr>trace := trace w @ [Request rq]\<rparr>)"]
  obtain e where rec: "attempt_loop cfg transport rq [Suc k ..< Suc R]
        (sleep (2 ^ k) (w\<lparr>trace := trace w @ [Request rq]\<rparr>)) =
     (Inl (NetworkError (RequestFailedAfterRetries (int R) e)),
      (sleep (2 ^ k) (w\<lparr>trace := trace w @ [Request rq]\<rparr>))
        \<lparr>clock := clock (sleep (2 ^ k) (w\<lparr>trace := trace w @ [Request rq]\<rparr>))
             + (\<Sum>i = Suc k ..< R. 2 ^ i),
         trace := trace (sleep (2 ^ k) (w\<lparr>trace := trace w @ [Request rq]\<rparr>))
             @ backoff_schedule rq (Suc k) (R - Suc k)\<rparr>)"
    by blast
  have ne: "int k \<noteq> retries cfg" using lt R by simp
  have step: "attempt_loop cfg transport rq (k # [Suc k ..< Suc R]) w =
      attempt_loop cfg transport rq [Suc k ..< Suc R]
        (sleep (2 ^ k) (w\<lparr>trace := trace w @ [Request rq]\<rparr>))"
    using fails [rule_format, of k] ne by (auto simp del: upt_Suc simp add: Let_def)
  have "attempt_loop cfg transport rq [k ..< Suc R] w =
     (Inl (NetworkError (RequestFailedAfterRetries (int R) e)),
      w\<lparr>clock := clock w + (\<Sum>i = k ..< R. 2 ^ i),
        trace := trace w @ backoff_schedule rq k (R - k)\<rparr>)"
    unfolding split step rec sched sum by (simp add: sleep_def add.assoc)
  then show ?case by blast
qed

text \<open>
  Claim C2. On a client whose configuration satisfies the stated invariant (a retry
  count \<open>R\<close> of at least 0 and a positive quota), a call whose every attempt fails with
  a connect or timeout error is admitted by the rate limiter and then makes exactly
  \<open>R + 1\<close> attempts, sleeps \<open>2 ^ i\<close> seconds after the failed attempt \<open>i\<close> for
  \<open>i = 0, ..., R - 1\<close> (the delays 1, 2, 4, ..., \<open>2 ^ (R - 1)\<close>, each between two
  consecutive attempts), and raises \<^verbatim>\<open>NetworkError\<close>. Here \<open>w0\<close> is the world once the
  rate limiter has returned and \<open>w1\<close> the world when the call ends.
\<close>

theorem make_request_transport_failures:
  assumes "0 \<le> retries (config self)"
    and "0 < requests (rate_limiter self)"
    and "\<forall>i. transport i = Raises ConnectError \<or> transport i = Raises TimeoutException"
  shows "\<exists>e rl w0 w1.
     wait_if_needed (rate_limiter self) w = (Inr (), rl, w0) \<and>
     make_request transport meth endpoint ps body self w =
       (Inl (NetworkError (RequestFailedAfterRetries (retries (config self)) e)),
        self\<lparr>rate_limiter := rl\<rparr>, w1) \<and>
     trace w1 = trace w0 @ backoff_schedule
        \<lparr>http_method = meth, url = endpoint, params = ps, json_data = body\<rparr> 0
        (nat (retries (config self))) \<and>
     attempts_made (drop (length (trace w0)) (trace w1)) = nat (retries (config self)) + 1 \<and>
     sleeps_of (drop (length (trace w0)) (trace w1)) =
        map (\<lambda>i. 2 ^ i) [0 ..< nat (retries (config self))]"
proof -
  define R where "R = nat (retries (config self))"
  define rq where "rq = \<lparr>http_method = meth, url = endpoint, params = ps, json_data = body\<rparr>"
  have R: "retries (config self) = int R" using assms(1) by (simp add: R_def)
  obtain rl w0 where adm: "wait_if_needed (rate_limiter self) w = (Inr (), rl, w0)"
    using wait_if_needed_admits [OF assms(2)] by blast
  have range: "attempt_range (config self) = [0 ..< Suc R]"
    using assms(1) by (simp add: attempt_range_def R_def nat_add_distrib)
  obtain e where loop: "attempt_loop (config self) transport rq [0 ..< Suc R] w0 =
     (Inl (NetworkError (RequestFailedAfterRetries (int R) e)),
      w0\<lparr>clock := clock w0 + (\<Sum>i = 0 ..< R. 2 ^ i),
         trace := trace w0 @ backoff_schedule rq 0 (R - 0)\<rparr>)"
    using attempt_loop_all_fail [OF assms(3) R, of 0 rq w0] by blast
  show ?thesis
    using adm loop
    by (simp add: make_request_def range R [symmetric] rq_def [symmetric] R_def [symmetric]
        attempts_made_backoff_schedule sleeps_of_backoff_schedule Let_def)
qed

theorem make_request_transport_failures_witness:
  "0 \<le> retries (config (client_of default_config)) \<and>
   0 < requests (rate_limiter (client_of default_config)) \<and>
   make_request unreachable ''GET'' ''/health'' None None (client_of default_config) start =
     (Inl (NetworkError (RequestFailedAfterRetries 3 ConnectError)),
      (client_of default_config)\<lparr>rate_limiter :=
         \<lparr>requests = 100, window = 60, calls = [0]\<rparr>\<rparr>,
      \<lparr>clock = 7,
       trace = [Acquire,
         Request \<lparr>http_method = ''GET'', url = ''/health'', params = None, json_data = None\<rparr>,
         Sleep 1,
         Request \<lparr>http_method = ''GET'', url = ''/health'', params = None, json_data = None\<rparr>,
         Sleep 2,
         Request \<lparr>http_method = ''GET'', url = ''/health'', params = None, json_data = None\<rparr>,
         Sleep 4,
         Request \<lparr>http_method = ''GET'', url = ''/health'', params = None, json_data = None\<rparr>]\<rparr>)"
proof -
  have h1: "0 \<le> retries (config (client_of default_config))"
    by (simp add: client_of_def default_config_def)
  have h2: "0 < requests (rate_limiter (client_of default_config))"
    by (simp add: client_of_def default_config_def)
  have h3: "\<forall>i. unreachable i = Raises ConnectError \<or> unreachable i = Raises TimeoutException"
    by (simp add: unreachable_def)
  have run: "make_request unreachable ''GET'' ''/health'' None None (client_of default_config)
      start =
     (Inl (NetworkError (RequestFailedAfterRetries 3 ConnectError)),
      (client_of default_config)\<lparr>rate_limiter :=
         \<lparr>requests = 100, window = 60, calls = [0]\<rparr>\<rparr>,
      \<lparr>clock = 7,
       trace = [Acquire,
         Request \<lparr>http_method = ''GET'', url = ''/health'', params = None, json_data = None\<rparr>,
         Sleep 1,
         Request \<lparr>http_method = ''GET'', url = ''/health'', params = None, json_data = None\<rparr>,
         Sleep 2,
         Request \<lparr>http_method = ''GET'', url = ''/health'', params = None, json_data = None\<rparr>,
         Sleep 4,
         Request \<lparr>http_method = ''GET'', url = ''/health'', params = None, json_data = None\<rparr>]\<rparr>)"
    by (simp add: make_request_def wait_if_needed_def attempt_range_def client_of_def
        default_config_def start_def unreachable_def sleep_def Let_def upt_rec)
  from make_request_transport_failures [OF h1 h2 h3, where w = start and meth = "''GET''"
      and endpoint = "''/health''" and ps = None and body = None]
  obtain e rl w1 where "make_request unreachable ''GET'' ''/health'' None None
      (client_of default_config) start =
       (Inl (NetworkError (RequestFailedAfterRetries (retries (config (client_of default_config))) e)),
        (client_of default_config)\<lparr>rate_limiter := rl\<rparr>, w1)"
    by blast
  with h1 h2 run show ?thesis by simp
qed

text \<open>
  Outside that invariant the loop does not run at all: with a negative retry count the
  call makes no attempt and returns \<^verbatim>\<open>None\<close>.
\<close>

lemma make_request_negative_retries:
  assumes "retries (config self) < 0" and "0 < requests (rate_limiter self)"
  shows "fst (make_request transport meth endpoint ps body self w) = Inr JNull"
    and "attempts_made (trace (snd (snd (make_request transport meth endpoint ps body self w))))
       = attempts_made (trace w)"
proof -
  obtain rl w0 where adm: "wait_if_needed (rate_limiter self) w = (Inr (), rl, w0)"
    using wait_if_needed_admits [OF assms(2)] by blast
  have range: "attempt_range (config self) = []"
    using assms(1) by (simp add: attempt_range_def)
  show "fst (make_request transport meth endpoint ps body self w) = Inr JNull"
    using adm range by (simp add: make_request_def)
  have "attempts_made (trace w0) = attempts_made (trace w)"
    using adm by (auto simp: wait_if_needed_def Let_def sleep_def attempts_made_def
        split: if_splits list.splits)
  then show "attempts_made (trace (snd (snd (make_request transport meth endpoint ps body self w))))
       = attempts_made (trace w)"
    using adm range by (simp add: make_request_def)
qed

text \<open>The loop extends the trace and never runs the admission routine.\<close>

lemma attempt_loop_trace:
  "\<exists>evs. trace (snd (attempt_loop cfg transport rq ks w)) = trace w @ evs \<and> acquisitions evs = 0"
proof (induction ks arbitrary: w)
  case Nil
  show ?case by (simp add: acquisitions_def)
next
  case (Cons k ks)
  obtain evs where rec: "trace (snd (attempt_loop cfg transport rq ks
        (sleep (2 ^ k) (w\<lparr>trace := trace w @ [Request rq]\<rparr>)))) =
      trace (sleep (2 ^ k) (w\<lparr>trace := trace w @ [Request rq]\<rparr>)) @ evs"
    and none: "acquisitions evs = 0"
    using Cons.IH by blast
  show ?case
  proof (cases "transport k")
    case (Returns r)
    then show ?thesis by (simp add: Let_def acquisitions_def)
  next
    case (Raises e)
    show ?thesis
    proof (cases "(e = ConnectError \<or> e = TimeoutException) \<and> int k \<noteq> retries cfg")
      case True
      then have "trace (snd (attempt_loop cfg transport rq (k # ks) w)) =
          trace w @ Request rq # Sleep (2 ^ k) # evs"
        using Raises rec by (auto simp: Let_def sleep_def)
      moreover have "acquisitions (Request rq # Sleep (2 ^ k) # evs) = 0"
        using none by (simp add: acquisitions_def)
      ultimately show ?thesis by blast
    next
      case False
      then have "trace (snd (attempt_loop cfg transport rq (k # ks) w)) = trace w @ [Request rq]"
        using Raises by (auto simp: Let_def)
      moreover have "acquisitions [Request rq] = 0" by (simp add: acquisitions_def)
      ultimately show ?thesis by blast
    qed
  qed
qed

lemma wait_if_needed_trace:
  "\<exists>evs. trace (snd (snd (wait_if_needed self w))) = trace w @ Acquire # evs \<and> acquisitions evs = 0"
  by (auto simp: wait_if_needed_def Let_def sleep_def acquisitions_def split: list.splits)

lemma make_request_trace:
  "\<exists>evs. trace (snd (snd (make_request transport meth endpoint ps body self w))) =
      trace w @ Acquire # evs \<and> acquisitions evs = 0"
proof -
  obtain r rl w0 where adm: "wait_if_needed (rate_limiter self) w = (r, rl, w0)"
    by (metis prod_cases3)
  obtain evs0 where t0: "trace w0 = trace w @ Acquire # evs0" and a0: "acquisitions evs0 = 0"
    using wait_if_needed_trace [of "rate_limiter self" w] adm by auto
  show ?thesis
  proof (cases r)
    case (Inl e)
    then show ?thesis using adm t0 a0 by (simp add: make_request_def)
  next
    case (Inr u)
    define rq where "rq = \<lparr>http_method = meth, url = endpoint, params = ps, json_data = body\<rparr>"
    obtain res w1 where loop: "attempt_loop (config self) transport rq
          (attempt_range (config self)) w0 = (res, w1)"
      by (metis surj_pair)
    obtain evs1 where t1: "trace w1 = trace w0 @ evs1" and a1: "acquisitions evs1 = 0"
      using attempt_loop_trace [of "config self" transport rq "attempt_range (config self)" w0]
        loop by auto
    have "trace (snd (snd (make_request transport meth endpoint ps body self w))) =
        trace w @ Acquire # (evs0 @ evs1)"
      using adm Inr t0 t1 loop by (simp add: make_request_def rq_def)
    moreover have "acquisitions (evs0 @ evs1) = 0"
      using a0 a1 by (simp add: acquisitions_def)
    ultimately show ?thesis by blast
  qed
qed

text \<open>The suspending path runs the same statements as the blocking one.\<close>

lemma async_wait_if_needed_eq: "async_wait_if_needed = wait_if_needed"
  by (intro ext) (simp add: async_wait_if_needed_def wait_if_needed_def)

lemma async_attempt_loop_eq:
  "async_attempt_loop cfg transport rq ks w = attempt_loop cfg transport rq ks w"
  by (induction ks arbitrary: w) (simp_all add: Let_def split: transport_result.splits)

lemma make_async_request_eq: "make_async_request = make_request"
  by (intro ext)
    (simp add: make_async_request_def make_request_def async_wait_if_needed_eq
      async_attempt_loop_eq split: prod.splits sum.splits)

text \<open>
  A call whose first attempt is refused and whose second is answered makes two HTTP
  attempts and runs the admission routine once: the retry does not pass through the
  rate limiter again.
\<close>

theorem retry_without_acquisition:
  "attempts_made (trace (snd (snd (make_request fails_once ''GET'' ''/health'' None None
       (client_of default_config) start)))) = 2
   \<and> acquisitions (trace (snd (snd (make_request fails_once ''GET'' ''/health'' None None
       (client_of default_config) start)))) = 1"
  by (simp add: make_request_def wait_if_needed_def attempt_range_def client_of_def
      default_config_def start_def sleep_def Let_def attempts_made_def acquisitions_def
      handle_response_def ok_response_def and_then_def dict_get_def upt_rec)

text \<open>
  Claim C3, amended. Every dispatched call, blocking or suspending, runs the rate
  limiter's admission routine exactly once, before its first HTTP attempt; a retry after
  a transport failure does not run it again. So a call that makes \<open>k\<close> attempts runs the
  admission routine once.
\<close>

theorem one_acquisition_per_call:
  "(\<exists>evs. trace (snd (snd (make_request transport meth endpoint ps body self w))) =
        trace w @ Acquire # evs \<and> acquisitions evs = 0) \<and>
   (\<exists>evs. trace (snd (snd (make_async_request transport meth endpoint ps body self w))) =
        trace w @ Acquire # evs \<and> acquisitions evs = 0)"
  using make_request_trace [of transport meth endpoint ps body self w]
  by (simp add: make_async_request_eq)

text \<open>
  Claim C5, at the failing input. A response with status 200 and the body
  \<^verbatim>\<open>{"success":false,"error":{"message":"x","code":"Y"}}\<close> raises
  \<^verbatim>\<open>ParadigmError("x")\<close>: the call passes no code, and the envelope's code \<^verbatim>\<open>"Y"\<close> is
  never read on this path. The dispatcher makes that one attempt and no other.
\<close>

theorem success_false_raises_without_code:
  "handle_response failure_envelope = Inl (ParadigmError (JStr ''x'') None)
   \<and> make_request (answers_with failure_envelope) ''GET'' ''/health'' None None
       (client_of default_config) start =
     (Inl (ParadigmError (JStr ''x'') None),
      (client_of default_config)\<lparr>rate_limiter :=
         \<lparr>requests = 100, window = 60, calls = [0]\<rparr>\<rparr>,
      \<lparr>clock = 0,
       trace = [Acquire,
         Request \<lparr>http_method = ''GET'', url = ''/health'', params = None, json_data = None\<rparr>]\<rparr>)"
  by (simp add: make_request_def wait_if_needed_def attempt_range_def client_of_def
      default_config_def start_def sleep_def Let_def answers_with_def failure_envelope_def
      handle_response_def and_then_def dict_get_def upt_rec)

section \<open>Properties of the typed facade\<close>

text \<open>
  Claim C6. Each operation that validates an address (\<^verbatim>\<open>get_account\<close>, \<^verbatim>\<open>get_balance\<close>,
  \<^verbatim>\<open>create_transaction\<close> and their suspending twins), called with an address that
  \<^verbatim>\<open>validate_address\<close> rejects, raises \<^verbatim>\<open>ValidationError\<close> and leaves the client and the
  world as they were: no HTTP request is issued and the rate limiter is not run. For
  \<^verbatim>\<open>create_transaction\<close> the address validated is the recipient as \<^verbatim>\<open>format_address\<close>
  returns it.
\<close>

theorem invalid_address_rejected_before_dispatch:
  "(\<not> validate_address pkg address \<longrightarrow>
      get_account pkg transport address self w =
        (Inl (ValidationError ''Invalid address format''), self, w) \<and>
      get_account_async pkg transport address self w =
        (Inl (ValidationError ''Invalid address format''), self, w) \<and>
      get_balance pkg transport address self w =
        (Inl (ValidationError ''Invalid address format''), self, w) \<and>
      get_balance_async pkg transport address self w =
        (Inl (ValidationError ''Invalid address format''), self, w)) \<and>
   (\<not> validate_address pkg (format_address pkg (to request)) \<longrightarrow>
      create_transaction pkg transport request self w =
        (Inl (ValidationError ''Invalid recipient address''), self, w) \<and>
      create_transaction_async pkg transport request self w =
        (Inl (ValidationError ''Invalid recipient address''), self, w))"
  by (simp add: get_account_def get_account_async_def get_balance_def get_balance_async_def
      create_transaction_def create_transaction_async_def)

theorem invalid_address_rejected_before_dispatch_witness:
  "\<not> validate_address sample_package [] \<and>
   get_account sample_package (answers_with ok_response) [] (client_of default_config) start =
      (Inl (ValidationError ''Invalid address format''), client_of default_config, start) \<and>
   get_account_async sample_package (answers_with ok_response) [] (client_of default_config) start =
      (Inl (ValidationError ''Invalid address format''), client_of default_config, start) \<and>
   get_balance sample_package (answers_with ok_response) [] (client_of default_config) start =
      (Inl (ValidationError ''Invalid address format''), client_of default_config, start) \<and>
   get_balance_async sample_package (answers_with ok_response) [] (client_of default_config) start =
      (Inl (ValidationError ''Invalid address format''), client_of default_config, start) \<and>
   create_transaction sample_package (answers_with ok_response)
      \<lparr>to = [], amount = JStr ''1'', other_fields = []\<rparr> (client_of default_config) start =
      (Inl (ValidationError ''Invalid recipient address''), client_of default_config, start) \<and>
   create_transaction_async sample_package (answers_with ok_response)
      \<lparr>to = [], amount = JStr ''1'', other_fields = []\<rparr> (client_of default_config) start =
      (Inl (ValidationError ''Invalid recipient address''), client_of default_config, start) \<and>
   attempts_made (trace start) = 0 \<and> acquisitions (trace start) = 0"
  using invalid_address_rejected_before_dispatch [of sample_package "[]"
      "answers_with ok_response" "client_of default_config" start
      "\<lparr>to = [], amount = JStr ''1'', other_fields = []\<rparr>"]
  by (simp add: sample_package_def start_def attempts_made_def acquisitions_def)

text \<open>
  \<^verbatim>\<open>send_signed_transaction\<close> is a synchronous facade operation and the class defines no
  \<^verbatim>\<open>send_signed_transaction_async\<close>.
\<close>

theorem sync_only_operation:
  "(''send_signed_transaction'', False) \<in> set facade_methods
   \<and> \<not> has_async_twin ''send_signed_transaction''"
  by (simp add: facade_methods_def has_async_twin_def)

text \<open>
  Claim C8, amended. Of the synchronous facade operations, exactly \<^verbatim>\<open>get_health\<close>,
  \<^verbatim>\<open>get_network_stats\<close>, \<^verbatim>\<open>get_account\<close>, \<^verbatim>\<open>get_balance\<close>, \<^verbatim>\<open>get_transaction\<close> and
  \<^verbatim>\<open>create_transaction\<close> have a suspending twin, and each twin validates, fails and
  acts on the client and the world exactly as its synchronous version does. The other
  synchronous operations have no twin.
\<close>

theorem async_twins:
  "filter has_async_twin synchronous_operations =
     [''get_health'', ''get_network_stats'', ''get_account'', ''get_balance'',
      ''get_transaction'', ''create_transaction'']
   \<and> get_health_async = get_health
   \<and> get_network_stats_async = get_network_stats
   \<and> get_account_async = get_account
   \<and> get_balance_async = get_balance
   \<and> get_transaction_async = get_transaction
   \<and> create_transaction_async = create_transaction"
proof -
  have table: "filter has_async_twin synchronous_operations =
     [''get_health'', ''get_network_stats'', ''get_account'', ''get_balance'',
      ''get_transaction'', ''create_transaction'']"
    by (simp add: synchronous_operations_def has_async_twin_def facade_methods_def)
  have "get_health_async = get_health"
    by (intro ext) (simp add: get_health_async_def get_health_def make_async_request_eq)
  moreover have "get_network_stats_async = get_network_stats"
    by (intro ext)
      (simp add: get_network_stats_async_def get_network_stats_def make_async_request_eq)
  moreover have "get_account_async = get_account"
    by (intro ext) (simp add: get_account_async_def get_account_def make_async_request_eq)
  moreover have "get_balance_async = get_balance"
    by (intro ext) (simp add: get_balance_async_def get_balance_def make_async_request_eq)
  moreover have "get_transaction_async = get_transaction"
    by (intro ext) (simp add: get_transaction_async_def get_transaction_def make_async_request_eq)
  moreover have "create_transaction_async = create_transaction"
    by (intro ext)
      (simp add: create_transaction_async_def create_transaction_def make_async_request_eq)
  ultimately show ?thesis using table by simp
qed

section \<open>Properties of client construction\<close>





end
